theory Spec2Isabelle
  imports Main "HOL-Library.AList"
begin

section \<open>Zeroconf discovery: data model\<close>

text \<open>
  The development follows \<^verbatim>\<open>homeassistant/components/zeroconf/__init__.py\<close>.

  A Python \<^verbatim>\<open>bytes\<close> value is a list of 8-bit characters. A Python \<^verbatim>\<open>str\<close> is
  represented by its UTF-8 encoding, so that \<^verbatim>\<open>b.decode("utf-8")\<close> succeeds exactly on
  the well-formed byte sequences and then returns the same list, equality of \<^verbatim>\<open>str\<close>
  values is equality of lists, and \<^verbatim>\<open>s.startswith(t)\<close> is the prefix relation.

  A Python \<^verbatim>\<open>dict\<close> is an association list in insertion order: \<open>map_of\<close> reads a
  key, \<open>AList.update\<close> assigns one (an existing key keeps its position, a new key is
  appended), \<open>map fst\<close> iterates the keys.
\<close>

type_synonym bytes = string
type_synonym str = string

datatype error = TypeError | ValueError | AttributeError | KeyError

text \<open>
  The value of an advertised property as the mDNS library hands it over
  (\<^verbatim>\<open>Optional[bytes]\<close>): the bytes after \<^verbatim>\<open>=\<close>, or \<^verbatim>\<open>None\<close> for a key without value.
\<close>

datatype prop_value = Bytes bytes | NoValue

text \<open>
  The values of \<^verbatim>\<open>properties: dict[str, Any]\<close>: a decoded string, or the dictionary of
  raw values that the code stores under \<^verbatim>\<open>"_raw"\<close>.
\<close>

datatype py_any = Str str | Dict "(str \<times> prop_value) list"

text \<open>
  The resolved \<^verbatim>\<open>AsyncServiceInfo\<close>, with the attributes that the code reads.
  \<open>svc_addresses\<close> is the value of \<^verbatim>\<open>service.addresses\<close>, the list of packed addresses
  that \<^verbatim>\<open>info_from_service\<close> hands to \<^verbatim>\<open>_first_non_link_local_or_v6_address\<close>; which
  of the advertised addresses the zeroconf library puts into that attribute is decided
  outside this source.
\<close>

record service =
  svc_type :: str
  svc_name :: str
  svc_server :: str
  svc_port :: "int option"
  svc_addresses :: "bytes list"
  svc_properties :: "(bytes \<times> prop_value) list"

text \<open>\<^verbatim>\<open>class ZeroconfServiceInfo(TypedDict)\<close>\<close>

record ZeroconfServiceInfo =
  host :: str
  port :: "int option"
  hostname :: str
  type :: str
  name :: str
  properties :: "(str \<times> py_any) list"

datatype ip_addr = IPv4Address bytes | IPv6Address bytes

text \<open>
  The functions of the Python runtime whose results depend on the Unicode tables or on
  the library version are parameters of the model: \<^verbatim>\<open>fnmatch.fnmatch(name, pat)\<close>,
  \<^verbatim>\<open>str.lower\<close>, \<^verbatim>\<open>str.upper\<close>, \<^verbatim>\<open>int(s)\<close> on a string (\<open>None\<close> is \<^verbatim>\<open>ValueError\<close>)
  and \<^verbatim>\<open>str(ip_addr)\<close>. Every theorem below holds for all of them.
\<close>

record pylib =
  fnmatch :: "str \<Rightarrow> str \<Rightarrow> bool"
  str_lower :: "str \<Rightarrow> str"
  str_upper :: "str \<Rightarrow> str"
  int_of_str :: "str \<Rightarrow> int option"
  str_of_ip :: "ip_addr \<Rightarrow> str"

section \<open>Decoding\<close>

text \<open>\<^verbatim>\<open>key.decode("ascii")\<close>: \<open>None\<close> is \<^verbatim>\<open>UnicodeDecodeError\<close>.\<close>

definition decode_ascii :: "bytes \<Rightarrow> str option" where
  "decode_ascii b = (if list_all (\<lambda>c. (of_char c :: nat) < 128) b then Some b else None)"

definition cont :: "nat \<Rightarrow> bool" where
  "cont b = (128 \<le> b \<and> b \<le> 191)"

text \<open>
  The well-formed UTF-8 byte sequences (Unicode, table 3-7): no overlong form, no
  surrogate, nothing above U+10FFFF, no truncated sequence.
\<close>

fun utf8_wf :: "nat list \<Rightarrow> bool" where
  "utf8_wf [] = True"
| "utf8_wf (a # bs) =
     (if a < 128 then utf8_wf bs
      else if 194 \<le> a \<and> a \<le> 223 then
        (case bs of b # r \<Rightarrow> cont b \<and> utf8_wf r | _ \<Rightarrow> False)
      else if 224 \<le> a \<and> a \<le> 239 then
        (case bs of b # c # r \<Rightarrow>
           (if a = 224 then 160 \<le> b \<and> b \<le> 191
            else if a = 237 then 128 \<le> b \<and> b \<le> 159
            else cont b) \<and> cont c \<and> utf8_wf r
         | _ \<Rightarrow> False)
      else if 240 \<le> a \<and> a \<le> 244 then
        (case bs of b # c # d # r \<Rightarrow>
           (if a = 240 then 144 \<le> b \<and> b \<le> 191
            else if a = 244 then 128 \<le> b \<and> b \<le> 143
            else cont b) \<and> cont c \<and> cont d \<and> utf8_wf r
         | _ \<Rightarrow> False)
      else False)"

text \<open>\<^verbatim>\<open>value.decode("utf-8")\<close>: \<open>None\<close> is \<^verbatim>\<open>UnicodeDecodeError\<close>.\<close>

definition decode_utf8 :: "bytes \<Rightarrow> str option" where
  "decode_utf8 b = (if utf8_wf (map of_char b) then Some b else None)"

section \<open>Addresses\<close>

text \<open>
  \<^verbatim>\<open>ipaddress.ip_address\<close> on a packed address: four bytes are an IPv4 address, sixteen
  an IPv6 address, anything else raises \<^verbatim>\<open>ValueError\<close>.
\<close>

definition ip_address :: "bytes \<Rightarrow> error + ip_addr" where
  "ip_address address =
     (if length address = 4 then Inr (IPv4Address address)
      else if length address = 16 then Inr (IPv6Address address)
      else Inl ValueError)"

fun version :: "ip_addr \<Rightarrow> nat" where
  "version (IPv4Address _) = 4"
| "version (IPv6Address _) = 6"

text \<open>\<^verbatim>\<open>is_link_local\<close>: 169.254.0.0/16 for IPv4, fe80::/10 for IPv6.\<close>

fun is_link_local :: "ip_addr \<Rightarrow> bool" where
  "is_link_local (IPv4Address b) =
     (case b of a0 # a1 # _ \<Rightarrow> (of_char a0 :: nat) = 169 \<and> (of_char a1 :: nat) = 254
      | _ \<Rightarrow> False)"
| "is_link_local (IPv6Address b) =
     (case b of a0 # a1 # _ \<Rightarrow> (of_char a0 :: nat) = 254 \<and> (of_char a1 :: nat) div 64 = 2
      | _ \<Rightarrow> False)"

text \<open>
  \<^verbatim>\<open>
  def _first_non_link_local_or_v6_address(addresses: list[bytes]) -> str | None:
      for address in addresses:
          ip_addr = ip_address(address)
          if not ip_addr.is_link_local or ip_addr.version == 6:
              return str(ip_addr)
      return None
  \<close>
\<close>

fun first_non_link_local_or_v6_address :: "pylib \<Rightarrow> bytes list \<Rightarrow> error + str option" where
  "first_non_link_local_or_v6_address L [] = Inr None"
| "first_non_link_local_or_v6_address L (address # addresses) =
     (case ip_address address of
        Inl e \<Rightarrow> Inl e
      | Inr ip_addr \<Rightarrow>
          if \<not> is_link_local ip_addr \<or> version ip_addr = 6
          then Inr (Some (str_of_ip L ip_addr))
          else first_non_link_local_or_v6_address L addresses)"

section \<open>Normalisation: \<^verbatim>\<open>info_from_service\<close>\<close>

definition RAW :: str where
  "RAW = ''_raw''"

text \<open>
  \<^verbatim>\<open>properties["_raw"][key] = value\<close>: the item assignment goes to whatever object
  \<^verbatim>\<open>properties["_raw"]\<close> is at that moment; a \<^verbatim>\<open>str\<close> does not support it.
\<close>

definition set_raw_item :: "(str \<times> py_any) list \<Rightarrow> str \<Rightarrow> prop_value \<Rightarrow> error + (str \<times> py_any) list" where
  "set_raw_item props key val =
     (case map_of props RAW of
        None \<Rightarrow> Inl KeyError
      | Some (Str _) \<Rightarrow> Inl TypeError
      | Some (Dict raw) \<Rightarrow> Inr (AList.update RAW (Dict (AList.update key val raw)) props))"

text \<open>
  \<^verbatim>\<open>
          with suppress(UnicodeDecodeError):
              if isinstance(value, bytes):
                  properties[key] = value.decode("utf-8")
  \<close>
\<close>

definition set_decoded_item :: "(str \<times> py_any) list \<Rightarrow> str \<Rightarrow> prop_value \<Rightarrow> (str \<times> py_any) list" where
  "set_decoded_item props key val =
     (case val of
        NoValue \<Rightarrow> props
      | Bytes b \<Rightarrow>
          (case decode_utf8 b of
             None \<Rightarrow> props
           | Some s \<Rightarrow> AList.update key (Str s) props))"

text \<open>One turn of the loop over \<^verbatim>\<open>service.properties.items()\<close>.\<close>

definition decode_property :: "(str \<times> py_any) list \<Rightarrow> bytes \<times> prop_value \<Rightarrow> error + (str \<times> py_any) list" where
  "decode_property props kv =
     (case decode_ascii (fst kv) of
        None \<Rightarrow> Inr props
      | Some key \<Rightarrow>
          (case set_raw_item props key (snd kv) of
             Inl e \<Rightarrow> Inl e
           | Inr props' \<Rightarrow> Inr (set_decoded_item props' key (snd kv))))"

fun decode_properties :: "(str \<times> py_any) list \<Rightarrow> (bytes \<times> prop_value) list \<Rightarrow> error + (str \<times> py_any) list" where
  "decode_properties props [] = Inr props"
| "decode_properties props (kv # items) =
     (case decode_property props kv of
        Inl e \<Rightarrow> Inl e
      | Inr props' \<Rightarrow> decode_properties props' items)"

text \<open>
  \<^verbatim>\<open>info_from_service\<close>: \<open>Inl e\<close> is an exception raised to the caller, \<open>Inr None\<close>
  the return value \<^verbatim>\<open>None\<close>, \<open>Inr (Some info)\<close> the prepared info.
\<close>

definition info_from_service :: "pylib \<Rightarrow> service \<Rightarrow> error + ZeroconfServiceInfo option" where
  "info_from_service L service =
     (case decode_properties [(RAW, Dict [])] (svc_properties service) of
        Inl e \<Rightarrow> Inl e
      | Inr props \<Rightarrow>
          if svc_addresses service = [] then Inr None
          else
            (case first_non_link_local_or_v6_address L (svc_addresses service) of
               Inl e \<Rightarrow> Inl e
             | Inr None \<Rightarrow> Inr None
             | Inr (Some h) \<Rightarrow>
                 Inr (Some \<lparr>host = h, port = svc_port service, hostname = svc_server service,
                            type = svc_type service, name = svc_name service,
                            properties = props\<rparr>)))"

section \<open>HomeKit classification\<close>

definition HOMEKIT_PAIRED_STATUS_FLAG :: str where
  "HOMEKIT_PAIRED_STATUS_FLAG = ''sf''"

definition HOMEKIT_MODEL :: str where
  "HOMEKIT_MODEL = ''md''"

definition startswith :: "str \<Rightarrow> str \<Rightarrow> bool" where
  "startswith s t = (take (length t) s = t)"

text \<open>
  \<^verbatim>\<open>
      model = None
      for key in props:
          if key.lower() == HOMEKIT_MODEL:
              model = props[key]
              break
  \<close>
\<close>

fun find_model :: "pylib \<Rightarrow> (str \<times> py_any) list \<Rightarrow> str list \<Rightarrow> py_any option" where
  "find_model L props [] = None"
| "find_model L props (key # keys) =
     (if str_lower L key = HOMEKIT_MODEL then map_of props key
      else find_model L props keys)"

text \<open>
  The test of one table entry. A model that is not a string differs from every
  \<^verbatim>\<open>test_model\<close> and has no \<^verbatim>\<open>startswith\<close>.
  \<^verbatim>\<open>
          if (
              model != test_model
              and not model.startswith((f"{test_model} ", f"{test_model}-"))
              and not fnmatch.fnmatch(model, test_model)
          ):
              continue
  \<close>
\<close>

definition model_matches :: "pylib \<Rightarrow> str \<Rightarrow> str \<Rightarrow> bool" where
  "model_matches L model test_model =
     (\<not> (model \<noteq> test_model
         \<and> \<not> (startswith model (test_model @ '' '') \<or> startswith model (test_model @ ''-''))
         \<and> \<not> fnmatch L model test_model))"

fun test_models :: "pylib \<Rightarrow> (str \<times> str) list \<Rightarrow> py_any \<Rightarrow> str list \<Rightarrow> error + str option" where
  "test_models L homekit_models model [] = Inr None"
| "test_models L homekit_models model (test_model # rest) =
     (case model of
        Dict _ \<Rightarrow> Inl AttributeError
      | Str m \<Rightarrow>
          if \<not> model_matches L m test_model then test_models L homekit_models model rest
          else (case map_of homekit_models test_model of
                  None \<Rightarrow> Inl KeyError
                | Some domain \<Rightarrow> Inr (Some domain)))"

definition async_get_homekit_discovery_domain ::
  "pylib \<Rightarrow> (str \<times> str) list \<Rightarrow> (str \<times> py_any) list \<Rightarrow> error + str option" where
  "async_get_homekit_discovery_domain L homekit_models props =
     (case find_model L props (map fst props) of
        None \<Rightarrow> Inr None
      | Some model \<Rightarrow> test_models L homekit_models model (map fst homekit_models))"

section \<open>The dispatcher\<close>

definition ZEROCONF_TYPE :: str where
  "ZEROCONF_TYPE = ''_home-assistant._tcp.local.''"

definition HOMEKIT_TYPES :: "str list" where
  "HOMEKIT_TYPES = [''_hap._tcp.local.'', ''_hap._udp.local.'']"

text \<open>
  The part of \<^verbatim>\<open>ZeroconfDiscovery\<close> that discovery reads: the table of match rules per
  service type and the HomeKit model table. A match rule is a \<^verbatim>\<open>dict[str, str]\<close>.
\<close>

type_synonym matcher = "(str \<times> str) list"

record ZeroconfDiscovery =
  zeroconf_types :: "(str \<times> matcher list) list"
  homekit_models :: "(str \<times> str) list"

text \<open>
  \<^verbatim>\<open>discovery_flow.async_create_flow(hass, domain, {"source": source}, info)\<close> is
  recorded as the triple of domain, source and info.
\<close>

datatype source = SOURCE_HOMEKIT | SOURCE_ZEROCONF

type_synonym flow = "str \<times> source \<times> ZeroconfServiceInfo"

text \<open>
  \<^verbatim>\<open>async_setup\<close>: the list of types handed to the service browser.
  \<^verbatim>\<open>
      types = list(self.zeroconf_types)
      for hk_type in (ZEROCONF_TYPE, *HOMEKIT_TYPES):
          if hk_type not in self.zeroconf_types:
              types.append(hk_type)
  \<close>
\<close>

fun append_types :: "(str \<times> matcher list) list \<Rightarrow> str list \<Rightarrow> str list \<Rightarrow> str list" where
  "append_types zt types [] = types"
| "append_types zt types (hk_type # rest) =
     append_types zt (if hk_type \<notin> set (map fst zt) then types @ [hk_type] else types) rest"

definition async_setup :: "ZeroconfDiscovery \<Rightarrow> str list" where
  "async_setup self =
     append_types (zeroconf_types self) (map fst (zeroconf_types self))
       (ZEROCONF_TYPE # HOMEKIT_TYPES)"

text \<open>
  \<^verbatim>\<open>async_service_update\<close>: the state is the list of the tasks created so far, each
  the arguments of one \<^verbatim>\<open>_process_service_update\<close>.
\<close>

datatype ServiceStateChange = Added | Removed | Updated

type_synonym task = "str \<times> str"

definition async_service_update :: "task list \<Rightarrow> str \<Rightarrow> str \<Rightarrow> ServiceStateChange \<Rightarrow> task list" where
  "async_service_update tasks service_type nm state_change =
     (if state_change = Removed then tasks
      else tasks @ [(service_type, nm)])"

text \<open>
  How the HomeKit block of \<^verbatim>\<open>_process_service_update\<close> ends: the code goes on to the
  match rules, returns, or an exception leaves the task.
\<close>

datatype control = Continue | Return | Raise error

text \<open>
  \<^verbatim>\<open>
          props = info[ATTR_PROPERTIES]
          if domain := async_get_homekit_discovery_domain(self.homekit_models, props):
              discovery_flow.async_create_flow(
                  self.hass, domain, {"source": config_entries.SOURCE_HOMEKIT}, info
              )
          if domain and HOMEKIT_PAIRED_STATUS_FLAG in props:
              try:
                  # 0 means paired and not discoverable by iOS clients)
                  if int(props[HOMEKIT_PAIRED_STATUS_FLAG]):
                      return
              except ValueError:
                  return
  \<close>
  An empty domain string is false in Python.
\<close>

definition homekit_discovery :: "pylib \<Rightarrow> ZeroconfDiscovery \<Rightarrow> ZeroconfServiceInfo \<Rightarrow> flow list \<times> control" where
  "homekit_discovery L self info =
     (let props = properties info in
      case async_get_homekit_discovery_domain L (homekit_models self) props of
        Inl e \<Rightarrow> ([], Raise e)
      | Inr None \<Rightarrow> ([], Continue)
      | Inr (Some domain) \<Rightarrow>
          if domain = [] then ([], Continue)
          else
            (let flows = [(domain, SOURCE_HOMEKIT, info)] in
             case map_of props HOMEKIT_PAIRED_STATUS_FLAG of
               None \<Rightarrow> (flows, Continue)
             | Some (Dict _) \<Rightarrow> (flows, Raise TypeError)
             | Some (Str s) \<Rightarrow>
                 (case int_of_str L s of
                    None \<Rightarrow> (flows, Return)
                  | Some n \<Rightarrow> if n \<noteq> 0 then (flows, Return) else (flows, Continue))))"

text \<open>
  \<^verbatim>\<open>
      if "macaddress" in info[ATTR_PROPERTIES]:
          uppercase_mac: str | None = info[ATTR_PROPERTIES]["macaddress"].upper()
      else:
          uppercase_mac = None
  \<close>
  and the same for \<^verbatim>\<open>manufacturer\<close> and \<^verbatim>\<open>model\<close> with \<^verbatim>\<open>lower\<close>.
\<close>

definition cased_property :: "(str \<Rightarrow> str) \<Rightarrow> (str \<times> py_any) list \<Rightarrow> str \<Rightarrow> error + str option" where
  "cased_property f props key =
     (case map_of props key of
        None \<Rightarrow> Inr None
      | Some (Str s) \<Rightarrow> Inr (Some (f s))
      | Some (Dict _) \<Rightarrow> Inl AttributeError)"

text \<open>
  \<^verbatim>\<open>
              if "macaddress" in matcher and (
                  uppercase_mac is None
                  or not fnmatch.fnmatch(uppercase_mac, matcher["macaddress"])
              ):
                  continue
  \<close>
\<close>

definition filter_rejects :: "pylib \<Rightarrow> matcher \<Rightarrow> str \<Rightarrow> str option \<Rightarrow> bool" where
  "filter_rejects L matcher key field =
     (case map_of matcher key of
        None \<Rightarrow> False
      | Some pat \<Rightarrow> (case field of None \<Rightarrow> True | Some v \<Rightarrow> \<not> fnmatch L v pat))"

text \<open>
  The normalised fields of the record, in the order \<^verbatim>\<open>uppercase_mac\<close>,
  \<^verbatim>\<open>lowercase_name\<close>, \<^verbatim>\<open>lowercase_manufacturer\<close>, \<^verbatim>\<open>lowercase_model\<close>.
\<close>

type_synonym fields = "str option \<times> str option \<times> str option \<times> str option"

text \<open>The rule is passed over: one of the four \<^verbatim>\<open>continue\<close> is reached.\<close>

definition skipped :: "pylib \<Rightarrow> fields \<Rightarrow> matcher \<Rightarrow> bool" where
  "skipped L fs matcher =
     (case fs of (uppercase_mac, lowercase_name, lowercase_manufacturer, lowercase_model) \<Rightarrow>
        length matcher > 1 \<and>
        (filter_rejects L matcher ''macaddress'' uppercase_mac
         \<or> filter_rejects L matcher ''name'' lowercase_name
         \<or> filter_rejects L matcher ''manufacturer'' lowercase_manufacturer
         \<or> filter_rejects L matcher ''model'' lowercase_model))"

text \<open>
  \<^verbatim>\<open>for matcher in self.zeroconf_types.get(service_type, [])\<close>: the flows created, and
  the exception that ended the loop if there was one.
\<close>

fun match_loop :: "pylib \<Rightarrow> ZeroconfServiceInfo \<Rightarrow> fields \<Rightarrow> matcher list \<Rightarrow> flow list \<times> error option" where
  "match_loop L info fs [] = ([], None)"
| "match_loop L info fs (matcher # rest) =
     (if skipped L fs matcher then match_loop L info fs rest
      else
        (case map_of matcher ''domain'' of
           None \<Rightarrow> ([], Some KeyError)
         | Some domain \<Rightarrow>
             (case match_loop L info fs rest of
                (flows, e) \<Rightarrow> ((domain, SOURCE_ZEROCONF, info) # flows, e))))"

definition zeroconf_types_get :: "ZeroconfDiscovery \<Rightarrow> str \<Rightarrow> matcher list" where
  "zeroconf_types_get self service_type =
     (case map_of (zeroconf_types self) service_type of None \<Rightarrow> [] | Some ms \<Rightarrow> ms)"

text \<open>Lines 385 to 439 of the source: the fields, then the loop over the rules.\<close>

definition generic_discovery ::
  "pylib \<Rightarrow> ZeroconfDiscovery \<Rightarrow> str \<Rightarrow> ZeroconfServiceInfo \<Rightarrow> flow list \<times> error option" where
  "generic_discovery L self service_type info =
     (let lowercase_name = Some (str_lower L (name info)) in
      case cased_property (str_upper L) (properties info) ''macaddress'' of
        Inl e \<Rightarrow> ([], Some e)
      | Inr uppercase_mac \<Rightarrow>
     (case cased_property (str_lower L) (properties info) ''manufacturer'' of
        Inl e \<Rightarrow> ([], Some e)
      | Inr lowercase_manufacturer \<Rightarrow>
     (case cased_property (str_lower L) (properties info) ''model'' of
        Inl e \<Rightarrow> ([], Some e)
      | Inr lowercase_model \<Rightarrow>
          match_loop L info
            (uppercase_mac, lowercase_name, lowercase_manufacturer, lowercase_model)
            (zeroconf_types_get self service_type))))"

text \<open>
  \<^verbatim>\<open>_process_service_update\<close>, from the resolved \<^verbatim>\<open>async_service_info\<close> on: the flows
  created, in order, and the exception that ended the task if there was one.
\<close>

definition process_service_update ::
  "pylib \<Rightarrow> ZeroconfDiscovery \<Rightarrow> str \<Rightarrow> service \<Rightarrow> flow list \<times> error option" where
  "process_service_update L self service_type async_service_info =
     (case info_from_service L async_service_info of
        Inl e \<Rightarrow> ([], Some e)
      | Inr None \<Rightarrow> ([], None)
      | Inr (Some info) \<Rightarrow>
          (case (if service_type \<in> set HOMEKIT_TYPES then homekit_discovery L self info
                 else ([], Continue)) of
             (hk_flows, Return) \<Rightarrow> (hk_flows, None)
           | (hk_flows, Raise e) \<Rightarrow> (hk_flows, Some e)
           | (hk_flows, Continue) \<Rightarrow>
               (case generic_discovery L self service_type info of
                  (flows, e) \<Rightarrow> (hk_flows @ flows, e))))"

text \<open>
  A run of the dispatcher over the events of the listener: every event goes through
  \<^verbatim>\<open>async_service_update\<close>, and every task created runs \<^verbatim>\<open>_process_service_update\<close>
  on the record that the network returns for it (\<open>resolve\<close>, the outcome of
  \<^verbatim>\<open>async_request\<close>).
\<close>

type_synonym event = "str \<times> str \<times> ServiceStateChange"

fun handle_events :: "task list \<Rightarrow> event list \<Rightarrow> task list" where
  "handle_events tasks [] = tasks"
| "handle_events tasks ((service_type, nm, state_change) # events) =
     handle_events (async_service_update tasks service_type nm state_change) events"

definition run_tasks :: "pylib \<Rightarrow> ZeroconfDiscovery \<Rightarrow> (task \<Rightarrow> service) \<Rightarrow> task list \<Rightarrow> flow list" where
  "run_tasks L self resolve tasks =
     concat (map (\<lambda>t. fst (process_service_update L self (fst t) (resolve t))) tasks)"

section \<open>An ASCII instance of the runtime functions\<close>

text \<open>
  The concrete examples below need the runtime functions at some inputs. This instance
  agrees with CPython 3.9 on POSIX where stated, and is used for examples only.
\<close>

text \<open>\<^verbatim>\<open>str.lower\<close> and \<^verbatim>\<open>str.upper\<close> on ASCII strings.\<close>

definition ascii_lower :: "str \<Rightarrow> str" where
  "ascii_lower s =
     map (\<lambda>c. case map_of (zip ''ABCDEFGHIJKLMNOPQRSTUVWXYZ'' ''abcdefghijklmnopqrstuvwxyz'') c of
                None \<Rightarrow> c | Some l \<Rightarrow> l) s"

definition ascii_upper :: "str \<Rightarrow> str" where
  "ascii_upper s =
     map (\<lambda>c. case map_of (zip ''abcdefghijklmnopqrstuvwxyz'' ''ABCDEFGHIJKLMNOPQRSTUVWXYZ'') c of
                None \<Rightarrow> c | Some u \<Rightarrow> u) s"

text \<open>
  \<^verbatim>\<open>fnmatch.fnmatch(name, pat)\<close> on ASCII names, for patterns made of literal characters,
  \<^verbatim>\<open>*\<close> and \<^verbatim>\<open>?\<close> (no bracket expression).
\<close>

fun glob :: "str \<Rightarrow> str \<Rightarrow> bool" where
  "glob [] s = (s = [])"
| "glob (p # ps) [] = (p = CHR ''*'' \<and> glob ps [])"
| "glob (p # ps) (c # cs) =
     (if p = CHR ''*'' then glob ps (c # cs) \<or> glob (p # ps) cs
      else (p = CHR ''?'' \<or> p = c) \<and> glob ps cs)"

definition simple_fnmatch :: "str \<Rightarrow> str \<Rightarrow> bool" where
  "simple_fnmatch nm pat = glob pat nm"

text \<open>
  \<^verbatim>\<open>int(s)\<close> on ASCII strings: blanks around, an optional sign, decimal digits with
  single underscores between them. The blanks are the space and the characters 9 to 13;
  the separators 28 to 31 are not skipped, and \<^verbatim>\<open>int\<close> of a digit followed by one
  of them raises \<^verbatim>\<open>ValueError\<close>.
\<close>

definition is_digit :: "char \<Rightarrow> bool" where
  "is_digit c = (48 \<le> (of_char c :: nat) \<and> (of_char c :: nat) \<le> 57)"

definition is_space :: "char \<Rightarrow> bool" where
  "is_space c =
     ((of_char c :: nat) = 32 \<or> (9 \<le> (of_char c :: nat) \<and> (of_char c :: nat) \<le> 13))"

text \<open>The digits after the first one; \<open>u\<close> says that the last character was an underscore.\<close>

fun more_digits :: "bool \<Rightarrow> nat \<Rightarrow> str \<Rightarrow> nat option" where
  "more_digits u acc [] = (if u then None else Some acc)"
| "more_digits u acc (c # cs) =
     (if is_digit c then more_digits False (10 * acc + (of_char c - 48)) cs
      else if c = CHR ''_'' \<and> \<not> u then more_digits True acc cs
      else None)"

definition digits_value :: "str \<Rightarrow> nat option" where
  "digits_value s =
     (case s of
        [] \<Rightarrow> None
      | c # cs \<Rightarrow> if is_digit c then more_digits False (of_char c - 48) cs else None)"

definition ascii_int :: "str \<Rightarrow> int option" where
  "ascii_int s =
     (let t = rev (dropWhile is_space (rev (dropWhile is_space s))) in
      case t of
        [] \<Rightarrow> None
      | c # cs \<Rightarrow>
          if c = CHR ''-'' then map_option (\<lambda>n. - int n) (digits_value cs)
          else if c = CHR ''+'' then map_option int (digits_value cs)
          else map_option int (digits_value t))"

text \<open>\<^verbatim>\<open>str\<close> of an address: dotted decimal, or the compressed groups of RFC 5952.\<close>

definition digit_char :: "nat \<Rightarrow> char" where
  "digit_char d = ''0123456789abcdef'' ! d"

definition decimal :: "nat \<Rightarrow> str" where
  "decimal n =
     map digit_char (dropWhile (\<lambda>d. d = 0) [n div 100, n div 10 mod 10] @ [n mod 10])"

definition hextet :: "nat \<Rightarrow> str" where
  "hextet n =
     map digit_char
       (dropWhile (\<lambda>d. d = 0) [n div 4096, n div 256 mod 16, n div 16 mod 16] @ [n mod 16])"

fun join :: "str \<Rightarrow> str list \<Rightarrow> str" where
  "join sep [] = []"
| "join sep [x] = x"
| "join sep (x # y # ys) = x @ sep @ join sep (y # ys)"

fun hextets :: "nat list \<Rightarrow> nat list" where
  "hextets (hi # lo # bs) = (256 * hi + lo) # hextets bs"
| "hextets _ = []"

text \<open>
  The first longest run of zero groups, as \<^verbatim>\<open>_compress_hextets\<close> finds it: the index
  \<open>i\<close>, the run being read (\<open>ds\<close>, \<open>dl\<close>) and the best run so far (\<open>bs\<close>, \<open>bl\<close>).
\<close>

fun best_run :: "nat \<Rightarrow> nat option \<Rightarrow> nat \<Rightarrow> nat \<Rightarrow> nat \<Rightarrow> nat list \<Rightarrow> nat \<times> nat" where
  "best_run i ds dl bs bl [] = (bs, bl)"
| "best_run i ds dl bs bl (h # hs) =
     (if h = 0 then
        (let ds' = (case ds of None \<Rightarrow> i | Some j \<Rightarrow> j) in
         if dl + 1 > bl then best_run (i + 1) (Some ds') (dl + 1) ds' (dl + 1) hs
         else best_run (i + 1) (Some ds') (dl + 1) bs bl hs)
      else best_run (i + 1) None 0 bs bl hs)"

definition compress_hextets :: "nat list \<Rightarrow> str list" where
  "compress_hextets hs =
     (case best_run 0 None 0 0 0 hs of
        (bs, bl) \<Rightarrow>
          if bl > 1 then
            (if bs = 0 then [[]] else []) @ map hextet (take bs hs) @ [[]]
              @ map hextet (drop (bs + bl) hs) @ (if bs + bl = length hs then [[]] else [])
          else map hextet hs)"

fun ip_to_str :: "ip_addr \<Rightarrow> str" where
  "ip_to_str (IPv4Address b) = join ''.'' (map (\<lambda>c. decimal (of_char c)) b)"
| "ip_to_str (IPv6Address b) = join '':'' (compress_hextets (hextets (map of_char b)))"

definition ascii_lib :: pylib where
  "ascii_lib = \<lparr>fnmatch = simple_fnmatch, str_lower = ascii_lower, str_upper = ascii_upper,
                int_of_str = ascii_int, str_of_ip = ip_to_str\<rparr>"

section \<open>Notions of the specification\<close>

text \<open>
  A packed address in 169.254.0.0/16: the candidates that address selection passes over.
\<close>

definition link_local_ipv4 :: "bytes \<Rightarrow> bool" where
  "link_local_ipv4 a =
     (length a = 4 \<and> (of_char (a ! 0) :: nat) = 169 \<and> (of_char (a ! 1) :: nat) = 254)"

text \<open>The address object of a packed address of four or sixteen bytes.\<close>

definition packed_ip :: "bytes \<Rightarrow> ip_addr" where
  "packed_ip a = (if length a = 4 then IPv4Address a else IPv6Address a)"

text \<open>
  What the typed bag holds for an advertised value: the decoded string of a value that is
  bytes and UTF-8, nothing otherwise.
\<close>

definition decoded_value :: "prop_value \<Rightarrow> py_any option" where
  "decoded_value v = (case v of NoValue \<Rightarrow> None | Bytes b \<Rightarrow> map_option Str (decode_utf8 b))"

text \<open>
  The four filter fields of a match rule, and the field of the record that each one is
  compared with: the MAC address in upper case, the name, the manufacturer and the model
  in lower case. A field is absent when the record has no such property.
\<close>

definition FILTER_KEYS :: "str list" where
  "FILTER_KEYS = [''macaddress'', ''name'', ''manufacturer'', ''model'']"

definition record_field :: "pylib \<Rightarrow> ZeroconfServiceInfo \<Rightarrow> str \<Rightarrow> str option" where
  "record_field L info key =
     (if key = ''name'' then Some (str_lower L (name info))
      else
        (case map_of (properties info) key of
           Some (Str s) \<Rightarrow> Some (if key = ''macaddress'' then str_upper L s else str_lower L s)
         | _ \<Rightarrow> None))"

text \<open>
  A rule matches when every filter that it has finds its field in the record and the
  pattern matches the field (following section 4.3 of the specification).
\<close>

definition rule_matches :: "pylib \<Rightarrow> ZeroconfServiceInfo \<Rightarrow> matcher \<Rightarrow> bool" where
  "rule_matches L info matcher =
     list_all
       (\<lambda>key. case map_of matcher key of
                 None \<Rightarrow> True
               | Some pat \<Rightarrow>
                   (case record_field L info key of
                      None \<Rightarrow> False
                    | Some v \<Rightarrow> fnmatch L v pat))
       FILTER_KEYS"

definition matcher_domain :: "matcher \<Rightarrow> str" where
  "matcher_domain matcher = (case map_of matcher ''domain'' of None \<Rightarrow> [] | Some d \<Rightarrow> d)"


section \<open>Example inputs\<close>

text \<open>
  A rule table with an unfiltered rule for the HomeKit type, as the loader builds it for
  \<^verbatim>\<open>homekit_controller\<close>, five rules for a printer type, and a HomeKit model table.
\<close>

definition example_discovery :: ZeroconfDiscovery where
  "example_discovery =
     \<lparr>zeroconf_types =
        [(''_hap._tcp.local.'', [[(''domain'', ''homekit_controller'')]]),
         (''_printer._tcp.local.'',
            [[(''domain'', ''ipp'')],
             [(''domain'', ''acme''), (''manufacturer'', ''acme*'')],
             [(''domain'', ''best''), (''manufacturer'', ''best*'')],
             [(''domain'', ''laser''), (''model'', ''lj*'')],
             [(''domain'', ''ipp''), (''name'', ''office*'')]])],
      homekit_models = [(''Hub'', ''hubvendor''), (''SmartLock'', ''lockvendor'')]\<rparr>"

text \<open>
  A HomeKit lock that advertises the addresses 169.254.7.9 and 10.0.0.5, the model
  \<^verbatim>\<open>SmartLock\<close> and the pairing status \<open>sf\<close>; and the info that normalisation builds.
\<close>

definition lock_service :: "bytes \<Rightarrow> service" where
  "lock_service sf =
     \<lparr>svc_type = ''_hap._tcp.local.'', svc_name = ''Lock._hap._tcp.local.'',
      svc_server = ''lock.local.'', svc_port = Some 80,
      svc_addresses =
        [[CHR 0xA9, CHR 0xFE, CHR 0x07, CHR 0x09], [CHR 0x0A, CHR 0x00, CHR 0x00, CHR 0x05]],
      svc_properties = [(''md'', Bytes ''SmartLock''), (''sf'', Bytes sf)]\<rparr>"

definition lock_info :: "str \<Rightarrow> ZeroconfServiceInfo" where
  "lock_info sf =
     \<lparr>host = ''10.0.0.5'', port = Some 80, hostname = ''lock.local.'',
      type = ''_hap._tcp.local.'', name = ''Lock._hap._tcp.local.'',
      properties =
        [(''_raw'', Dict [(''md'', Bytes ''SmartLock''), (''sf'', Bytes sf)]),
         (''md'', Str ''SmartLock''), (''sf'', Str sf)]\<rparr>"

text \<open>
  A printer that advertises the addresses fe80::1 and 192.168.1.20, a manufacturer, a key that
  is not ASCII, a value that is not UTF-8 and a key without value.
\<close>

definition printer_service :: service where
  "printer_service =
     \<lparr>svc_type = ''_printer._tcp.local.'', svc_name = ''Office Printer._printer._tcp.local.'',
      svc_server = ''printer.local.'', svc_port = Some 631,
      svc_addresses =
        [[CHR 0xFE, CHR 0x80, CHR 0x00, CHR 0x00, CHR 0x00, CHR 0x00, CHR 0x00, CHR 0x00,
          CHR 0x00, CHR 0x00, CHR 0x00, CHR 0x00, CHR 0x00, CHR 0x00, CHR 0x00, CHR 0x01],
         [CHR 0xC0, CHR 0xA8, CHR 0x01, CHR 0x14]],
      svc_properties =
        [(''manufacturer'', Bytes ''Acme Corp''), ([CHR 0xFF], Bytes ''x''),
         (''blob'', Bytes [CHR 0xC3]), (''duplex'', NoValue)]\<rparr>"

definition printer_info :: ZeroconfServiceInfo where
  "printer_info =
     \<lparr>host = ''fe80::1'', port = Some 631, hostname = ''printer.local.'',
      type = ''_printer._tcp.local.'', name = ''Office Printer._printer._tcp.local.'',
      properties =
        [(''_raw'', Dict [(''manufacturer'', Bytes ''Acme Corp''), (''blob'', Bytes [CHR 0xC3]),
                         (''duplex'', NoValue)]),
         (''manufacturer'', Str ''Acme Corp'')]\<rparr>"

text \<open>A camera at 10.0.0.7 with the properties given.\<close>

definition raw_service :: "(bytes \<times> prop_value) list \<Rightarrow> service" where
  "raw_service props =
     \<lparr>svc_type = ''_http._tcp.local.'', svc_name = ''Cam._http._tcp.local.'',
      svc_server = ''cam.local.'', svc_port = Some 8080,
      svc_addresses = [[CHR 0x0A, CHR 0x00, CHR 0x00, CHR 0x07]],
      svc_properties = props\<rparr>"

section \<open>Evaluation of the examples\<close>

lemmas decode_defs = decode_property_def decode_ascii_def decode_utf8_def set_raw_item_def
  set_decoded_item_def RAW_def cont_def

lemmas address_defs = ip_address_def ascii_lib_def decimal_def hextet_def digit_char_def
  compress_hextets_def

lemmas match_defs = ascii_lib_def ascii_lower_def ascii_upper_def simple_fnmatch_def
  startswith_def HOMEKIT_MODEL_def

lemma lock_service_info:
  assumes "utf8_wf (map of_char sf)"
  shows "info_from_service ascii_lib (lock_service sf) = Inr (Some (lock_info sf))"
proof -
  have "decode_properties [(RAW, Dict [])] (svc_properties (lock_service sf))
          = Inr (properties (lock_info sf))"
    using assms by (simp add: lock_service_def lock_info_def decode_defs)
  moreover have "first_non_link_local_or_v6_address ascii_lib (svc_addresses (lock_service sf))
          = Inr (Some ''10.0.0.5'')"
    by (simp add: lock_service_def address_defs)
  ultimately show ?thesis
    by (simp add: info_from_service_def) (simp add: lock_service_def lock_info_def)
qed

lemma printer_service_info:
  "info_from_service ascii_lib printer_service = Inr (Some printer_info)"
proof -
  have "decode_properties [(RAW, Dict [])] (svc_properties printer_service)
          = Inr (properties printer_info)"
    by (simp add: printer_service_def printer_info_def decode_defs)
  moreover have "first_non_link_local_or_v6_address ascii_lib (svc_addresses printer_service)
          = Inr (Some ''fe80::1'')"
    by (simp add: printer_service_def address_defs)
  ultimately show ?thesis
    by (simp add: info_from_service_def) (simp add: printer_service_def printer_info_def)
qed

lemma lock_domain:
  "async_get_homekit_discovery_domain ascii_lib (homekit_models example_discovery)
     (properties (lock_info sf)) = Inr (Some ''lockvendor'')"
  by (simp add: async_get_homekit_discovery_domain_def lock_info_def example_discovery_def
      model_matches_def match_defs)

lemma lock_generic:
  "generic_discovery ascii_lib example_discovery ''_hap._tcp.local.'' (lock_info sf)
     = ([(''homekit_controller'', SOURCE_ZEROCONF, lock_info sf)], None)"
  by (simp add: generic_discovery_def cased_property_def lock_info_def
      zeroconf_types_get_def example_discovery_def skipped_def)

lemma ascii_int_examples:
  "ascii_int ''0'' = Some 0" "ascii_int ''1'' = Some 1" "ascii_int ''x'' = None"
  "ascii_int [CHR 0x09, CHR ''0'', CHR 0x20] = Some 0" "ascii_int [CHR ''0'', CHR 0x1C] = None"
  by (simp_all add: ascii_int_def digits_value_def is_space_def is_digit_def)

section \<open>Normalisation\<close>

lemma set_raw_item_strings:
  assumes "\<forall>k v. map_of props k = Some v \<longrightarrow> k = RAW \<or> (\<exists>s. v = Str s)"
    and "set_raw_item props key val = Inr props'"
  shows "\<forall>k v. map_of props' k = Some v \<longrightarrow> k = RAW \<or> (\<exists>s. v = Str s)"
  using assms
  by (auto simp: set_raw_item_def update_conv' split: option.splits py_any.splits if_splits) blast

lemma set_decoded_item_strings:
  assumes "\<forall>k v. map_of props k = Some v \<longrightarrow> k = RAW \<or> (\<exists>s. v = Str s)"
  shows "\<forall>k v. map_of (set_decoded_item props key val) k = Some v \<longrightarrow> k = RAW \<or> (\<exists>s. v = Str s)"
  using assms
  by (auto simp: set_decoded_item_def update_conv' split: option.splits prop_value.splits if_splits)

lemma decode_property_strings:
  assumes "\<forall>k v. map_of props k = Some v \<longrightarrow> k = RAW \<or> (\<exists>s. v = Str s)"
    and "decode_property props kv = Inr props'"
  shows "\<forall>k v. map_of props' k = Some v \<longrightarrow> k = RAW \<or> (\<exists>s. v = Str s)"
proof (cases "decode_ascii (fst kv)")
  case None
  with assms show ?thesis by (simp add: decode_property_def)
next
  case (Some key)
  with assms(2) obtain p1 where p1: "set_raw_item props key (snd kv) = Inr p1"
    and p': "props' = set_decoded_item p1 key (snd kv)"
    by (auto simp: decode_property_def split: sum.splits)
  from set_raw_item_strings[OF assms(1) p1] show ?thesis
    unfolding p' by (rule set_decoded_item_strings)
qed

lemma decode_properties_strings:
  assumes "\<forall>k v. map_of props k = Some v \<longrightarrow> k = RAW \<or> (\<exists>s. v = Str s)"
    and "decode_properties props items = Inr props'"
  shows "\<forall>k v. map_of props' k = Some v \<longrightarrow> k = RAW \<or> (\<exists>s. v = Str s)"
  using assms
proof (induction items arbitrary: props)
  case Nil
  then show ?case by simp
next
  case (Cons kv items)
  from Cons.prems(2) obtain p1 where p1: "decode_property props kv = Inr p1"
    and rest: "decode_properties p1 items = Inr props'"
    by (auto split: sum.splits)
  from decode_property_strings[OF Cons.prems(1) p1] rest show ?case
    by (rule Cons.IH)
qed

text \<open>
  Whatever the record advertises, every property of a prepared info other than
  \<^verbatim>\<open>"_raw"\<close> is a string.
\<close>

lemma info_from_service_strings:
  assumes "info_from_service L service = Inr (Some info)"
    and "map_of (properties info) k = Some v" and "k \<noteq> RAW"
  shows "\<exists>s. v = Str s"
proof -
  from assms(1) obtain props where d: "decode_properties [(RAW, Dict [])] (svc_properties service) = Inr props"
    and p: "properties info = props"
    by (auto simp: info_from_service_def split: sum.splits if_splits option.splits)
  have "\<forall>k v. map_of [(RAW, Dict [])] k = Some v \<longrightarrow> k = RAW \<or> (\<exists>s. v = Str s)"
    by simp
  from decode_properties_strings[OF this d] assms(2,3) p show ?thesis by blast
qed

lemma is_link_local_packed:
  assumes "length a = 4 \<or> length a = 16"
  shows "(\<not> is_link_local (packed_ip a) \<or> version (packed_ip a) = 6) = (\<not> link_local_ipv4 a)"
proof (cases "length a = 4")
  case True
  then obtain a0 a1 r where "a = a0 # a1 # r"
    by (cases a; cases "tl a") auto
  with True show ?thesis
    by (simp add: packed_ip_def link_local_ipv4_def)
next
  case False
  then show ?thesis
    by (simp add: packed_ip_def link_local_ipv4_def)
qed

lemma ip_address_packed:
  "length a = 4 \<or> length a = 16 \<Longrightarrow> ip_address a = Inr (packed_ip a)"
  by (auto simp: ip_address_def packed_ip_def)

lemma first_address_find:
  assumes "\<forall>a \<in> set addresses. length a = 4 \<or> length a = 16"
  shows "first_non_link_local_or_v6_address L addresses =
    Inr (map_option (\<lambda>a. str_of_ip L (packed_ip a)) (find (\<lambda>a. \<not> link_local_ipv4 a) addresses))"
  using assms
proof (induction addresses)
  case Nil
  then show ?case by simp
next
  case (Cons a addresses)
  then have len: "length a = 4 \<or> length a = 16" by simp
  show ?case
    using Cons is_link_local_packed[OF len] by (simp add: ip_address_packed[OF len])
qed

text \<open>
  Address selection, for the records whose properties the decoding loop gets through. The
  host of a prepared info is the first candidate address, in the order of the list, that
  is not a link-local IPv4 address: an IPv6 address is taken even when it is link-local.
  When the list is empty or holds link-local IPv4 addresses only, no info is prepared, and
  the record is rejected with \<^verbatim>\<open>None\<close>. The candidates are packed addresses, of four or
  sixteen bytes. The loop over the properties runs before the addresses are read, so the
  outcome is stated under the condition that the loop returns.
\<close>

theorem host_is_first_usable_address:
  assumes "\<forall>a \<in> set (svc_addresses service). length a = 4 \<or> length a = 16"
  shows "(\<forall>info. info_from_service L service = Inr (Some info) \<longrightarrow>
            (\<exists>a. find (\<lambda>a. \<not> link_local_ipv4 a) (svc_addresses service) = Some a
                 \<and> host info = str_of_ip L (packed_ip a)))
       \<and> (list_all link_local_ipv4 (svc_addresses service) \<longrightarrow>
            (\<forall>info. info_from_service L service \<noteq> Inr (Some info)))
       \<and> (\<forall>props. decode_properties [(RAW, Dict [])] (svc_properties service) = Inr props \<longrightarrow>
            info_from_service L service =
              (case find (\<lambda>a. \<not> link_local_ipv4 a) (svc_addresses service) of
                 None \<Rightarrow> Inr None
               | Some a \<Rightarrow>
                   Inr (Some \<lparr>host = str_of_ip L (packed_ip a), port = svc_port service,
                              hostname = svc_server service, type = svc_type service,
                              name = svc_name service, properties = props\<rparr>)))"
proof -
  let ?addrs = "svc_addresses service"
  let ?found = "find (\<lambda>a. \<not> link_local_ipv4 a) ?addrs"
  note first = first_address_find[OF assms, of L]
  have none: "list_all link_local_ipv4 ?addrs \<Longrightarrow> ?found = None"
    by (simp add: find_None_iff list_all_iff)
  have a: "\<exists>a. ?found = Some a \<and> host info = str_of_ip L (packed_ip a)"
    if "info_from_service L service = Inr (Some info)" for info
    using that first
    by (auto simp: info_from_service_def split: sum.splits if_splits option.splits)
  have b: "info_from_service L service \<noteq> Inr (Some info)"
    if "list_all link_local_ipv4 ?addrs" for info
    using a[of info] none[OF that] by auto
  have c: "info_from_service L service =
              (case ?found of
                 None \<Rightarrow> Inr None
               | Some a \<Rightarrow>
                   Inr (Some \<lparr>host = str_of_ip L (packed_ip a), port = svc_port service,
                              hostname = svc_server service, type = svc_type service,
                              name = svc_name service, properties = props\<rparr>))"
    if "decode_properties [(RAW, Dict [])] (svc_properties service) = Inr props" for props
    using that first
    by (cases "?addrs = []") (auto simp: info_from_service_def split: option.splits)
  from a b c show ?thesis by blast
qed

theorem host_is_first_usable_address_witness:
  "list_all (\<lambda>a. length a = 4 \<or> length a = 16) (svc_addresses (lock_service ''1''))
   \<and> info_from_service ascii_lib (lock_service ''1'') = Inr (Some (lock_info ''1''))
   \<and> host (lock_info ''1'') = ''10.0.0.5''"
proof -
  have h: "\<forall>a \<in> set (svc_addresses (lock_service ''1'')). length a = 4 \<or> length a = 16"
    by (simp add: lock_service_def)
  have d: "decode_properties [(RAW, Dict [])] (svc_properties (lock_service ''1''))
             = Inr (properties (lock_info ''1''))"
    by (simp add: lock_service_def lock_info_def decode_defs)
  have f: "find (\<lambda>a. \<not> link_local_ipv4 a) (svc_addresses (lock_service ''1''))
             = Some [CHR 0x0A, CHR 0x00, CHR 0x00, CHR 0x05]"
    by (simp add: lock_service_def link_local_ipv4_def)
  have s: "str_of_ip ascii_lib (packed_ip [CHR 0x0A, CHR 0x00, CHR 0x00, CHR 0x05]) = ''10.0.0.5''"
    by (simp add: packed_ip_def address_defs)
  from host_is_first_usable_address[OF h, of ascii_lib, THEN conjunct2, THEN conjunct2,
      rule_format, OF d]
  have "info_from_service ascii_lib (lock_service ''1'') =
          (case find (\<lambda>a. \<not> link_local_ipv4 a) (svc_addresses (lock_service ''1'')) of
             None \<Rightarrow> Inr None
           | Some a \<Rightarrow>
               Inr (Some \<lparr>host = str_of_ip ascii_lib (packed_ip a),
                          port = svc_port (lock_service ''1''),
                          hostname = svc_server (lock_service ''1''),
                          type = svc_type (lock_service ''1''),
                          name = svc_name (lock_service ''1''),
                          properties = properties (lock_info ''1'')\<rparr>))" .
  then have "info_from_service ascii_lib (lock_service ''1'') = Inr (Some (lock_info ''1''))"
    unfolding f by (simp add: s) (simp add: lock_service_def lock_info_def)
  with h show ?thesis
    by (simp add: list_all_iff) (simp add: lock_service_def lock_info_def)
qed

text \<open>
  Claim C10 (the code does not keep it). A record that advertises the property
  \<^verbatim>\<open>_raw=x\<close> gets an info whose \<^verbatim>\<open>"_raw"\<close> is the string \<^verbatim>\<open>"x"\<close>: the assignment
  \<^verbatim>\<open>properties[key] = value.decode("utf-8")\<close> replaces the dictionary of raw values.
\<close>

theorem raw_key_replaces_raw_bag:
  "info_from_service ascii_lib (raw_service [(''_raw'', Bytes ''x'')]) =
     Inr (Some \<lparr>host = ''10.0.0.7'', port = Some 8080, hostname = ''cam.local.'',
                type = ''_http._tcp.local.'', name = ''Cam._http._tcp.local.'',
                properties = [(''_raw'', Str ''x'')]\<rparr>)"
proof -
  have "decode_properties [(RAW, Dict [])] [(''_raw'', Bytes ''x'')] = Inr [(''_raw'', Str ''x'')]"
    by (simp add: decode_defs)
  moreover have "first_non_link_local_or_v6_address ascii_lib
                   [[CHR 0x0A, CHR 0x00, CHR 0x00, CHR 0x07]] = Inr (Some ''10.0.0.7'')"
    by (simp add: address_defs)
  ultimately show ?thesis
    by (simp add: info_from_service_def raw_service_def)
qed

text \<open>
  Claim C9 (the code does not keep it). When the property \<^verbatim>\<open>_raw=x\<close> is followed by
  another property with an ASCII key, \<^verbatim>\<open>properties["_raw"][key] = value\<close> assigns an item
  of a string: \<^verbatim>\<open>info_from_service\<close> raises \<^verbatim>\<open>TypeError\<close>, and the exception leaves
  \<^verbatim>\<open>_process_service_update\<close> before any flow is created.
\<close>

theorem raw_key_raises_type_error:
  "info_from_service ascii_lib (raw_service [(''_raw'', Bytes ''x''), (''a'', Bytes ''y'')])
     = Inl TypeError
   \<and> process_service_update ascii_lib example_discovery ''_http._tcp.local.''
       (raw_service [(''_raw'', Bytes ''x''), (''a'', Bytes ''y'')]) = ([], Some TypeError)"
proof -
  have "decode_properties [(RAW, Dict [])] [(''_raw'', Bytes ''x''), (''a'', Bytes ''y'')]
          = Inl TypeError"
    by (simp add: decode_defs)
  then have "info_from_service ascii_lib
               (raw_service [(''_raw'', Bytes ''x''), (''a'', Bytes ''y'')]) = Inl TypeError"
    by (simp add: info_from_service_def raw_service_def)
  then show ?thesis
    by (simp add: process_service_update_def)
qed

text \<open>
  Claim C3 (the code does not keep it). The properties are decoded before the addresses
  are read, so a record on which the decoding loop raises gets neither a host nor the
  rejection \<^verbatim>\<open>None\<close>. The camera that advertises \<^verbatim>\<open>_raw=x\<close> and \<^verbatim>\<open>a=y\<close> has the one
  candidate 10.0.0.7, which address selection takes as the host; yet
  \<^verbatim>\<open>info_from_service\<close> raises \<^verbatim>\<open>TypeError\<close> for it, and for the same properties with
  any other list of candidates, the empty list and the lists of link-local IPv4 addresses
  included.
\<close>

theorem raw_key_raises_before_address_selection:
  "first_non_link_local_or_v6_address ascii_lib
     (svc_addresses (raw_service [(''_raw'', Bytes ''x''), (''a'', Bytes ''y'')]))
     = Inr (Some ''10.0.0.7'')
   \<and> (\<forall>L. info_from_service L (raw_service [(''_raw'', Bytes ''x''), (''a'', Bytes ''y'')])
            = Inl TypeError)
   \<and> (\<forall>L addresses.
         info_from_service L
           ((raw_service [(''_raw'', Bytes ''x''), (''a'', Bytes ''y'')])
              \<lparr>svc_addresses := addresses\<rparr>)
         = Inl TypeError)"
proof -
  have a: "first_non_link_local_or_v6_address ascii_lib
             (svc_addresses (raw_service [(''_raw'', Bytes ''x''), (''a'', Bytes ''y'')]))
             = Inr (Some ''10.0.0.7'')"
    by (simp add: raw_service_def address_defs)
  have d: "decode_properties [(RAW, Dict [])] [(''_raw'', Bytes ''x''), (''a'', Bytes ''y'')]
             = Inl TypeError"
    by (simp add: decode_defs)
  have b: "info_from_service L (raw_service [(''_raw'', Bytes ''x''), (''a'', Bytes ''y'')])
             = Inl TypeError" for L
    using d by (simp add: info_from_service_def raw_service_def)
  have c: "info_from_service L
             ((raw_service [(''_raw'', Bytes ''x''), (''a'', Bytes ''y'')])
                \<lparr>svc_addresses := addresses\<rparr>)
             = Inl TypeError" for L addresses
    using d by (simp add: info_from_service_def raw_service_def)
  from a b c show ?thesis
    by simp
qed

text \<open>
  Claim C4 (the code does not keep it). After the properties \<^verbatim>\<open>id=42\<close> and \<^verbatim>\<open>_raw=on\<close>
  the typed bag holds both decoded values, and the raw bag is gone: \<^verbatim>\<open>"_raw"\<close> is the
  string \<^verbatim>\<open>"on"\<close>, so neither pair is in the raw bag with its bytes.
\<close>

theorem raw_key_loses_raw_values:
  "decode_properties [(RAW, Dict [])] [(''id'', Bytes ''42''), (''_raw'', Bytes ''on'')]
     = Inr [(''_raw'', Str ''on''), (''id'', Str ''42'')]"
  by (simp add: decode_defs)

subsection \<open>Records without the key \<^verbatim>\<open>_raw\<close>\<close>

lemma decode_ascii_Some: "decode_ascii k = Some k' \<Longrightarrow> k' = k"
  by (auto simp: decode_ascii_def split: if_splits)

lemma decode_property_step:
  assumes "map_of props RAW = Some (Dict raw)" and "fst kv \<noteq> RAW"
  shows "\<exists>props' raw'. decode_property props kv = Inr props'
           \<and> map_of props' RAW = Some (Dict raw')
           \<and> (\<forall>k. map_of raw' k =
                 (if k = fst kv \<and> decode_ascii k \<noteq> None then Some (snd kv) else map_of raw k))
           \<and> (\<forall>k. k \<noteq> RAW \<longrightarrow> map_of props' k =
                 (if k = fst kv \<and> decode_ascii k \<noteq> None \<and> decoded_value (snd kv) \<noteq> None
                  then decoded_value (snd kv) else map_of props k))"
proof (cases "decode_ascii (fst kv)")
  case None
  with assms show ?thesis
    by (auto simp: decode_property_def)
next
  case (Some key)
  then have key: "key = fst kv" by (rule decode_ascii_Some)
  show ?thesis
    using assms Some unfolding key
    by (cases "snd kv"; cases "decoded_value (snd kv)")
       (auto simp: decode_property_def set_raw_item_def set_decoded_item_def decoded_value_def
          update_conv' split: option.splits)
qed

lemma decode_properties_without_raw:
  assumes "distinct (map fst items)" and "RAW \<notin> fst ` set items"
    and "map_of props RAW = Some (Dict raw)"
  shows "\<exists>props' raw'. decode_properties props items = Inr props'
           \<and> map_of props' RAW = Some (Dict raw')
           \<and> (\<forall>k. map_of raw' k =
                 (if k \<in> fst ` set items \<and> decode_ascii k \<noteq> None then map_of items k
                  else map_of raw k))
           \<and> (\<forall>k. k \<noteq> RAW \<longrightarrow> map_of props' k =
                 (case map_of items k of
                    None \<Rightarrow> map_of props k
                  | Some v \<Rightarrow>
                      if decode_ascii k \<noteq> None \<and> decoded_value v \<noteq> None then decoded_value v
                      else map_of props k))"
  using assms
proof (induction items arbitrary: props raw)
  case Nil
  then show ?case by simp
next
  case (Cons kv items)
  from Cons.prems have kv: "fst kv \<noteq> RAW" and fresh: "fst kv \<notin> fst ` set items"
    and d: "distinct (map fst items)" and r: "RAW \<notin> fst ` set items"
    by auto
  from decode_property_step[OF Cons.prems(3) kv]
  obtain p1 r1 where s1: "decode_property props kv = Inr p1"
    and s2: "map_of p1 RAW = Some (Dict r1)"
    and s3: "\<And>k. map_of r1 k =
                 (if k = fst kv \<and> decode_ascii k \<noteq> None then Some (snd kv) else map_of raw k)"
    and s4: "\<And>k. k \<noteq> RAW \<Longrightarrow> map_of p1 k =
                 (if k = fst kv \<and> decode_ascii k \<noteq> None \<and> decoded_value (snd kv) \<noteq> None
                  then decoded_value (snd kv) else map_of props k)"
    by blast
  from Cons.IH[OF d r s2]
  obtain p2 r2 where t1: "decode_properties p1 items = Inr p2"
    and t2: "map_of p2 RAW = Some (Dict r2)"
    and t3: "\<And>k. map_of r2 k =
                 (if k \<in> fst ` set items \<and> decode_ascii k \<noteq> None then map_of items k
                  else map_of r1 k)"
    and t4: "\<And>k. k \<noteq> RAW \<Longrightarrow> map_of p2 k =
                 (case map_of items k of
                    None \<Rightarrow> map_of p1 k
                  | Some v \<Rightarrow>
                      if decode_ascii k \<noteq> None \<and> decoded_value v \<noteq> None then decoded_value v
                      else map_of p1 k)"
    by blast
  have none: "map_of items (fst kv) = None"
    using fresh by (simp add: map_of_eq_None_iff)
  have a: "decode_properties props (kv # items) = Inr p2"
    using s1 t1 by simp
  have b: "map_of r2 k =
             (if k \<in> fst ` set (kv # items) \<and> decode_ascii k \<noteq> None then map_of (kv # items) k
              else map_of raw k)" for k
    unfolding t3 s3 using fresh by (cases kv) auto
  have c: "map_of p2 k =
             (case map_of (kv # items) k of
                None \<Rightarrow> map_of props k
              | Some v \<Rightarrow>
                  if decode_ascii k \<noteq> None \<and> decoded_value v \<noteq> None then decoded_value v
                  else map_of props k)" if "k \<noteq> RAW" for k
  proof (cases "k = fst kv")
    case True
    with none that show ?thesis
      unfolding t4[OF that] s4[OF that] by (cases kv) auto
  next
    case False
    with that show ?thesis
      unfolding t4[OF that] s4[OF that] by (cases kv) (auto split: option.splits)
  qed
  from a t2 b c show ?case by blast
qed


lemma decode_properties_returns:
  assumes "RAW \<notin> fst ` set items" and "map_of props RAW = Some (Dict raw)"
  shows "\<exists>props' raw'. decode_properties props items = Inr props'
           \<and> map_of props' RAW = Some (Dict raw')"
  using assms
proof (induction items arbitrary: props raw)
  case Nil
  then show ?case by simp
next
  case (Cons kv items)
  then have kv: "fst kv \<noteq> RAW" and r: "RAW \<notin> fst ` set items"
    by auto
  from decode_property_step[OF Cons.prems(2) kv]
  obtain p1 r1 where s1: "decode_property props kv = Inr p1"
    and s2: "map_of p1 RAW = Some (Dict r1)"
    by blast
  from Cons.IH[OF r s2] s1 show ?case by simp
qed

text \<open>
  For the property maps that have no key \<^verbatim>\<open>_raw\<close> the raw bag and the typed bag are as
  the specification describes them: the raw bag holds exactly the advertised pairs whose
  key is ASCII, each with its bytes, and the typed bag holds, under the same keys, the
  values that are bytes and UTF-8.
\<close>

theorem property_bags_without_raw_key:
  assumes "distinct (map fst items)" and "RAW \<notin> fst ` set items"
  shows "\<exists>props raw. decode_properties [(RAW, Dict [])] items = Inr props
           \<and> map_of props RAW = Some (Dict raw)
           \<and> (\<forall>k. map_of raw k = (if decode_ascii k = None then None else map_of items k))
           \<and> (\<forall>k. k \<noteq> RAW \<longrightarrow> map_of props k =
                 (if decode_ascii k = None then None
                  else (case map_of items k of None \<Rightarrow> None | Some v \<Rightarrow> decoded_value v)))"
proof -
  have "map_of [(RAW, Dict [])] RAW = Some (Dict [])"
    by simp
  from decode_properties_without_raw[OF assms this]
  obtain props raw where a: "decode_properties [(RAW, Dict [])] items = Inr props"
    and b: "map_of props RAW = Some (Dict raw)"
    and c: "\<And>k. map_of raw k =
                 (if k \<in> fst ` set items \<and> decode_ascii k \<noteq> None then map_of items k
                  else map_of [] k)"
    and d: "\<And>k. k \<noteq> RAW \<Longrightarrow> map_of props k =
                 (case map_of items k of
                    None \<Rightarrow> map_of [(RAW, Dict [])] k
                  | Some v \<Rightarrow>
                      if decode_ascii k \<noteq> None \<and> decoded_value v \<noteq> None then decoded_value v
                      else map_of [(RAW, Dict [])] k)"
    by blast
  have c': "map_of raw k = (if decode_ascii k = None then None else map_of items k)" for k
  proof (cases "k \<in> fst ` set items")
    case True
    then show ?thesis unfolding c by simp
  next
    case False
    then have "map_of items k = None"
      by (simp add: map_of_eq_None_iff)
    with False show ?thesis unfolding c by simp
  qed
  have d': "map_of props k =
              (if decode_ascii k = None then None
               else (case map_of items k of None \<Rightarrow> None | Some v \<Rightarrow> decoded_value v))"
    if "k \<noteq> RAW" for k
    unfolding d[OF that] using that by (auto split: option.splits)
  from a b c' d' show ?thesis by blast
qed

text \<open>
  For those records, with candidates that are packed addresses, \<^verbatim>\<open>info_from_service\<close>
  returns: the key \<^verbatim>\<open>_raw\<close> is the only way to the \<^verbatim>\<open>TypeError\<close>.
\<close>

theorem normalisation_returns_without_raw_key:
  assumes "RAW \<notin> fst ` set (svc_properties service)"
    and "\<forall>a \<in> set (svc_addresses service). length a = 4 \<or> length a = 16"
  shows "\<exists>r. info_from_service L service = Inr r"
proof -
  have "map_of [(RAW, Dict [])] RAW = Some (Dict [])"
    by simp
  from decode_properties_returns[OF assms(1) this]
  obtain props where "decode_properties [(RAW, Dict [])] (svc_properties service) = Inr props"
    by blast
  then show ?thesis
    by (simp add: info_from_service_def first_address_find[OF assms(2)] split: option.splits)
qed

section \<open>HomeKit classification\<close>

lemma find_model_find:
  "find_model L props keys =
     (case find (\<lambda>k. str_lower L k = HOMEKIT_MODEL) keys of
        None \<Rightarrow> None | Some k \<Rightarrow> map_of props k)"
  by (induction keys) auto

lemma test_models_find:
  assumes "\<forall>(k, d) \<in> set entries. map_of hk_models k = Some d"
  shows "test_models L hk_models (Str m) (map fst entries) =
     Inr (map_option snd (find (\<lambda>(test_model, domain). model_matches L m test_model) entries))"
  using assms by (induction entries) (auto split: prod.splits)

text \<open>
  Claim C6. The classifier takes the value of the first property whose key is \<^verbatim>\<open>md\<close> in
  lower case, and returns no domain when there is none. Otherwise the model matches an
  entry of the table when it equals the entry, or starts with the entry and a space or a
  hyphen, or matches the entry as a glob pattern, and the domain is that of the first
  entry that matches, in the order of the table.
\<close>

theorem homekit_domain_is_first_match:
  assumes "distinct (map fst hk_models)"
  shows "((\<forall>k \<in> set (map fst props). str_lower L k \<noteq> HOMEKIT_MODEL) \<longrightarrow>
            async_get_homekit_discovery_domain L hk_models props = Inr None)
       \<and> (\<forall>k model.
            find (\<lambda>k. str_lower L k = HOMEKIT_MODEL) (map fst props) = Some k
            \<and> map_of props k = Some (Str model) \<longrightarrow>
            async_get_homekit_discovery_domain L hk_models props =
              Inr (map_option snd
                (find (\<lambda>(test_model, domain).
                         model = test_model
                         \<or> startswith model (test_model @ '' '')
                         \<or> startswith model (test_model @ ''-'')
                         \<or> fnmatch L model test_model)
                   hk_models)))"
proof -
  have a: "async_get_homekit_discovery_domain L hk_models props = Inr None"
    if "\<forall>k \<in> set (map fst props). str_lower L k \<noteq> HOMEKIT_MODEL"
  proof -
    from that have "find (\<lambda>k. str_lower L k = HOMEKIT_MODEL) (map fst props) = None"
      by (simp add: find_None_iff)
    then show ?thesis
      by (simp add: async_get_homekit_discovery_domain_def find_model_find)
  qed
  have tbl: "\<forall>(k, d) \<in> set hk_models. map_of hk_models k = Some d"
    using assms by auto
  have b: "async_get_homekit_discovery_domain L hk_models props =
              Inr (map_option snd
                (find (\<lambda>(test_model, domain).
                         model = test_model
                         \<or> startswith model (test_model @ '' '')
                         \<or> startswith model (test_model @ ''-'')
                         \<or> fnmatch L model test_model)
                   hk_models))"
    if "find (\<lambda>k. str_lower L k = HOMEKIT_MODEL) (map fst props) = Some k"
      and "map_of props k = Some (Str model)" for k model
  proof -
    from that have "find_model L props (map fst props) = Some (Str model)"
      by (simp add: find_model_find)
    then show ?thesis
      by (simp add: async_get_homekit_discovery_domain_def test_models_find[OF tbl]
          model_matches_def)
  qed
  from a b show ?thesis by blast
qed

theorem homekit_domain_is_first_match_witness:
  "distinct (map fst [(''Hub'', ''hubvendor'')])
   \<and> async_get_homekit_discovery_domain ascii_lib [(''Hub'', ''hubvendor'')]
       [(''_raw'', Dict []), (''MD'', Str ''Hub 2000'')] = Inr (Some ''hubvendor'')
   \<and> async_get_homekit_discovery_domain ascii_lib [(''Hub'', ''hubvendor'')]
       [(''_raw'', Dict []), (''md'', Str ''HubX'')] = Inr None
   \<and> async_get_homekit_discovery_domain ascii_lib [(''Hub'', ''hubvendor'')]
       [(''_raw'', Dict []), (''sf'', Str ''1'')] = Inr None"
proof -
  have d: "distinct (map fst [(''Hub'', ''hubvendor'')])"
    by simp
  note t = homekit_domain_is_first_match[OF d, of _ ascii_lib]
  have k1: "find (\<lambda>k. str_lower ascii_lib k = HOMEKIT_MODEL)
              (map fst [(''_raw'', Dict []), (''MD'', Str ''Hub 2000'')]) = Some ''MD''
            \<and> map_of [(''_raw'', Dict []), (''MD'', Str ''Hub 2000'')] ''MD''
                = Some (Str ''Hub 2000'')"
    by (simp add: match_defs)
  have v1: "map_option snd
              (find (\<lambda>(test_model, domain).
                       ''Hub 2000'' = test_model
                       \<or> startswith ''Hub 2000'' (test_model @ '' '')
                       \<or> startswith ''Hub 2000'' (test_model @ ''-'')
                       \<or> fnmatch ascii_lib ''Hub 2000'' test_model)
                 [(''Hub'', ''hubvendor'')]) = Some ''hubvendor''"
    by (simp add: match_defs)
  have k2: "find (\<lambda>k. str_lower ascii_lib k = HOMEKIT_MODEL)
              (map fst [(''_raw'', Dict []), (''md'', Str ''HubX'')]) = Some ''md''
            \<and> map_of [(''_raw'', Dict []), (''md'', Str ''HubX'')] ''md'' = Some (Str ''HubX'')"
    by (simp add: match_defs)
  have v2: "map_option snd
              (find (\<lambda>(test_model, domain).
                       ''HubX'' = test_model
                       \<or> startswith ''HubX'' (test_model @ '' '')
                       \<or> startswith ''HubX'' (test_model @ ''-'')
                       \<or> fnmatch ascii_lib ''HubX'' test_model)
                 [(''Hub'', ''hubvendor'')]) = None"
    by (simp add: match_defs)
  have k3: "\<forall>k \<in> set (map fst [(''_raw'', Dict []), (''sf'', Str ''1'')]).
              str_lower ascii_lib k \<noteq> HOMEKIT_MODEL"
    by (simp add: match_defs)
  from t[of "[(''_raw'', Dict []), (''MD'', Str ''Hub 2000'')]", THEN conjunct2, rule_format,
      OF k1]
  have r1: "async_get_homekit_discovery_domain ascii_lib [(''Hub'', ''hubvendor'')]
       [(''_raw'', Dict []), (''MD'', Str ''Hub 2000'')] = Inr (Some ''hubvendor'')"
    unfolding v1 .
  from t[of "[(''_raw'', Dict []), (''md'', Str ''HubX'')]", THEN conjunct2, rule_format,
      OF k2]
  have r2: "async_get_homekit_discovery_domain ascii_lib [(''Hub'', ''hubvendor'')]
       [(''_raw'', Dict []), (''md'', Str ''HubX'')] = Inr None"
    unfolding v2 .
  from t[of "[(''_raw'', Dict []), (''sf'', Str ''1'')]", THEN conjunct1, THEN mp, OF k3]
  have r3: "async_get_homekit_discovery_domain ascii_lib [(''Hub'', ''hubvendor'')]
       [(''_raw'', Dict []), (''sf'', Str ''1'')] = Inr None" .
  from d r1 r2 r3 show ?thesis by (intro conjI)
qed

section \<open>The browser and its events\<close>

lemma append_types_eq:
  "append_types zt types hks = types @ filter (\<lambda>t. t \<notin> set (map fst zt)) hks"
  by (induction hks arbitrary: types) auto

text \<open>
  Claim C8. The types handed to the service browser are the configured types followed by
  those of \<^verbatim>\<open>_home-assistant._tcp.local.\<close>, \<^verbatim>\<open>_hap._tcp.local.\<close> and \<^verbatim>\<open>_hap._udp.local.\<close>
  that are not configured: as a set, the union of the three, and a list without
  duplicates, the keys of a dictionary being distinct.
\<close>

theorem browser_types:
  "async_setup self =
     map fst (zeroconf_types self)
       @ filter (\<lambda>t. t \<notin> set (map fst (zeroconf_types self))) (ZEROCONF_TYPE # HOMEKIT_TYPES)
   \<and> set (async_setup self) =
       set (map fst (zeroconf_types self)) \<union> {ZEROCONF_TYPE} \<union> set HOMEKIT_TYPES
   \<and> (distinct (map fst (zeroconf_types self)) \<longrightarrow> distinct (async_setup self))"
proof -
  have d: "distinct (ZEROCONF_TYPE # HOMEKIT_TYPES)"
    by (simp add: ZEROCONF_TYPE_def HOMEKIT_TYPES_def)
  have e: "async_setup self =
     map fst (zeroconf_types self)
       @ filter (\<lambda>t. t \<notin> set (map fst (zeroconf_types self))) (ZEROCONF_TYPE # HOMEKIT_TYPES)"
    by (simp only: async_setup_def append_types_eq)
  have s: "set (async_setup self) =
       set (map fst (zeroconf_types self)) \<union> {ZEROCONF_TYPE} \<union> set HOMEKIT_TYPES"
    unfolding e by auto
  have "distinct (async_setup self)" if "distinct (map fst (zeroconf_types self))"
    unfolding e using that distinct_filter[OF d] by (simp only: distinct_append) auto
  with e s show ?thesis by blast
qed

theorem browser_types_witness:
  "distinct (map fst (zeroconf_types example_discovery))
   \<and> async_setup example_discovery =
       [''_hap._tcp.local.'', ''_printer._tcp.local.'', ''_home-assistant._tcp.local.'',
        ''_hap._udp.local.'']
   \<and> distinct (async_setup example_discovery)"
proof -
  have d: "distinct (map fst (zeroconf_types example_discovery))"
    by (simp add: example_discovery_def)
  have e: "map fst (zeroconf_types example_discovery)
       @ filter (\<lambda>t. t \<notin> set (map fst (zeroconf_types example_discovery)))
           (ZEROCONF_TYPE # HOMEKIT_TYPES) =
       [''_hap._tcp.local.'', ''_printer._tcp.local.'', ''_home-assistant._tcp.local.'',
        ''_hap._udp.local.'']"
    by (simp add: example_discovery_def ZEROCONF_TYPE_def HOMEKIT_TYPES_def)
  from browser_types[of example_discovery] d e show ?thesis
    by simp
qed

lemma handle_events_append:
  "handle_events tasks (evs1 @ evs2) = handle_events (handle_events tasks evs1) evs2"
  by (induction evs1 arbitrary: tasks) auto

text \<open>
  Claim C7. A \<^verbatim>\<open>Removed\<close> event creates no task, whatever the tasks created before it:
  the tasks of a sequence of events, and the flows that these tasks create, are those of
  the sequence without the event.
\<close>

theorem removed_is_ignored:
  "async_service_update tasks service_type nm Removed = tasks
   \<and> handle_events tasks (before @ (service_type, nm, Removed) # after)
       = handle_events tasks (before @ after)
   \<and> run_tasks L self resolve
         (handle_events tasks (before @ (service_type, nm, Removed) # after))
       = run_tasks L self resolve (handle_events tasks (before @ after))"
  by (simp add: handle_events_append async_service_update_def)

theorem removed_is_ignored_witness:
  "handle_events []
     [(''_hap._tcp.local.'', ''Lock._hap._tcp.local.'', Added),
      (''_hap._tcp.local.'', ''Lock._hap._tcp.local.'', Removed),
      (''_printer._tcp.local.'', ''Office Printer._printer._tcp.local.'', Updated)]
   = [(''_hap._tcp.local.'', ''Lock._hap._tcp.local.''),
      (''_printer._tcp.local.'', ''Office Printer._printer._tcp.local.'')]"
  using removed_is_ignored[of "[]" "''_hap._tcp.local.''" "''Lock._hap._tcp.local.''"
      "[(''_hap._tcp.local.'', ''Lock._hap._tcp.local.'', Added)]"
      "[(''_printer._tcp.local.'', ''Office Printer._printer._tcp.local.'', Updated)]"]
  by (simp add: async_service_update_def)

section \<open>Match rules\<close>

lemma only_domain:
  assumes "map_of m ''domain'' = Some d" and "\<not> 1 < length m" and "key \<noteq> ''domain''"
  shows "map_of m key = None"
proof -
  from assms(1) have "m \<noteq> []" by auto
  with assms(2) obtain kv where m: "m = [kv]"
    by (cases m) auto
  with assms(1) have "fst kv = ''domain''"
    by (cases kv) (auto split: if_splits)
  with m assms(3) show ?thesis by (cases kv) auto
qed

lemma filter_rejects_iff:
  "filter_rejects L m key field =
     (\<not> (case map_of m key of
            None \<Rightarrow> True
          | Some pat \<Rightarrow> (case field of None \<Rightarrow> False | Some v \<Rightarrow> fnmatch L v pat)))"
  by (simp add: filter_rejects_def split: option.splits)

lemma skipped_iff:
  assumes "map_of m ''domain'' = Some d"
  shows "skipped L (record_field L info ''macaddress'', record_field L info ''name'',
                    record_field L info ''manufacturer'', record_field L info ''model'') m
         = (\<not> rule_matches L info m)"
proof (cases "1 < length m")
  case True
  then show ?thesis
    by (simp add: skipped_def rule_matches_def FILTER_KEYS_def filter_rejects_iff)
next
  case False
  have "map_of m ''macaddress'' = None" "map_of m ''name'' = None"
    "map_of m ''manufacturer'' = None" "map_of m ''model'' = None"
    by (rule only_domain[OF assms False]; simp)+
  with False show ?thesis
    by (simp add: skipped_def rule_matches_def FILTER_KEYS_def)
qed

lemma match_loop_filter:
  assumes "\<forall>m \<in> set rules. ''domain'' \<in> fst ` set m"
  shows "match_loop L info
           (record_field L info ''macaddress'', record_field L info ''name'',
            record_field L info ''manufacturer'', record_field L info ''model'') rules
         = (map (\<lambda>m. (matcher_domain m, SOURCE_ZEROCONF, info))
              (filter (rule_matches L info) rules), None)"
  using assms
proof (induction rules)
  case Nil
  then show ?case by simp
next
  case (Cons m rules)
  then have "''domain'' \<in> fst ` set m" by simp
  then obtain d where d: "map_of m ''domain'' = Some d"
    by (metis domD dom_map_of_conv_image_fst)
  from Cons have IH: "match_loop L info
           (record_field L info ''macaddress'', record_field L info ''name'',
            record_field L info ''manufacturer'', record_field L info ''model'') rules
         = (map (\<lambda>m. (matcher_domain m, SOURCE_ZEROCONF, info))
              (filter (rule_matches L info) rules), None)"
    by simp
  show ?case
    by (simp add: skipped_iff[OF d] IH d matcher_domain_def)
qed

lemma cased_property_field:
  assumes "info_from_service L service = Inr (Some info)" and "key \<noteq> RAW"
  shows "cased_property f (properties info) key =
           Inr (case map_of (properties info) key of Some (Str s) \<Rightarrow> Some (f s) | _ \<Rightarrow> None)"
proof (cases "map_of (properties info) key")
  case None
  then show ?thesis by (simp add: cased_property_def)
next
  case (Some v)
  from info_from_service_strings[OF assms(1) Some assms(2)] obtain s where "v = Str s" ..
  with Some show ?thesis by (simp add: cased_property_def)
qed

text \<open>
  Claim C5. For a prepared info and the rules of its service type, each with its
  \<^verbatim>\<open>domain\<close>, the flows created are those of the rules that match, one for each rule in
  the order of the table, with no domain left out because it occurred before. A rule
  with none of the four filters matches every record, and a rule with a filter whose
  field the record does not have matches none.
\<close>

theorem one_flow_per_matching_rule:
  assumes "info_from_service L service = Inr (Some info)"
    and "\<forall>m \<in> set (zeroconf_types_get self service_type). ''domain'' \<in> fst ` set m"
  shows "generic_discovery L self service_type info =
           (map (\<lambda>m. (matcher_domain m, SOURCE_ZEROCONF, info))
              (filter (rule_matches L info) (zeroconf_types_get self service_type)), None)
       \<and> (\<forall>m. (\<forall>key \<in> set FILTER_KEYS. map_of m key = None) \<longrightarrow> rule_matches L info m)
       \<and> (\<forall>m key pat. key \<in> set FILTER_KEYS \<and> map_of m key = Some pat
             \<and> record_field L info key = None \<longrightarrow> \<not> rule_matches L info m)"
proof -
  have mac: "cased_property (str_upper L) (properties info) ''macaddress''
               = Inr (record_field L info ''macaddress'')"
    by (simp add: cased_property_field[OF assms(1)] RAW_def record_field_def
        split: option.splits py_any.splits)
  have man: "cased_property (str_lower L) (properties info) ''manufacturer''
               = Inr (record_field L info ''manufacturer'')"
    by (simp add: cased_property_field[OF assms(1)] RAW_def record_field_def
        split: option.splits py_any.splits)
  have mod: "cased_property (str_lower L) (properties info) ''model''
               = Inr (record_field L info ''model'')"
    by (simp add: cased_property_field[OF assms(1)] RAW_def record_field_def
        split: option.splits py_any.splits)
  have nm: "Some (str_lower L (name info)) = record_field L info ''name''"
    by (simp add: record_field_def)
  have a: "generic_discovery L self service_type info =
           (map (\<lambda>m. (matcher_domain m, SOURCE_ZEROCONF, info))
              (filter (rule_matches L info) (zeroconf_types_get self service_type)), None)"
    unfolding generic_discovery_def Let_def mac man mod nm
    by (simp add: match_loop_filter[OF assms(2)])
  have b: "rule_matches L info m" if "\<forall>key \<in> set FILTER_KEYS. map_of m key = None" for m
    using that by (simp add: rule_matches_def list_all_iff)
  have c: "\<not> rule_matches L info m"
    if "key \<in> set FILTER_KEYS \<and> map_of m key = Some pat \<and> record_field L info key = None"
    for m key pat
  proof
    assume "rule_matches L info m"
    with that have "case map_of m key of
                 None \<Rightarrow> True
               | Some pat \<Rightarrow>
                   (case record_field L info key of
                      None \<Rightarrow> False
                    | Some v \<Rightarrow> fnmatch L v pat)"
      unfolding rule_matches_def list_all_iff by blast
    with that show False by simp
  qed
  from a b c show ?thesis by blast
qed

theorem one_flow_per_matching_rule_witness:
  "info_from_service ascii_lib printer_service = Inr (Some printer_info)
   \<and> generic_discovery ascii_lib example_discovery ''_printer._tcp.local.'' printer_info =
       ([(''ipp'', SOURCE_ZEROCONF, printer_info), (''acme'', SOURCE_ZEROCONF, printer_info),
         (''ipp'', SOURCE_ZEROCONF, printer_info)], None)"
proof -
  have d: "\<forall>m \<in> set (zeroconf_types_get example_discovery ''_printer._tcp.local.'').
             ''domain'' \<in> fst ` set m"
    by (simp add: zeroconf_types_get_def example_discovery_def)
  have e: "map matcher_domain
             (filter (rule_matches ascii_lib printer_info)
                (zeroconf_types_get example_discovery ''_printer._tcp.local.''))
           = [''ipp'', ''acme'', ''ipp'']"
    by (simp add: zeroconf_types_get_def example_discovery_def rule_matches_def FILTER_KEYS_def
        record_field_def printer_info_def matcher_domain_def match_defs)
  have m: "map (\<lambda>m. (matcher_domain m, SOURCE_ZEROCONF, printer_info)) rules
           = map (\<lambda>d. (d, SOURCE_ZEROCONF, printer_info)) (map matcher_domain rules)" for rules
    by simp
  from one_flow_per_matching_rule[OF printer_service_info d, THEN conjunct1]
  have "generic_discovery ascii_lib example_discovery ''_printer._tcp.local.'' printer_info =
          (map (\<lambda>m. (matcher_domain m, SOURCE_ZEROCONF, printer_info))
             (filter (rule_matches ascii_lib printer_info)
                (zeroconf_types_get example_discovery ''_printer._tcp.local.'')), None)" .
  then show ?thesis
    unfolding m e using printer_service_info by simp
qed

section \<open>HomeKit records and the match rules\<close>

text \<open>
  Claim C2. For a record of a HomeKit type whose model resolves to a domain and whose
  \<^verbatim>\<open>sf\<close> property reads as the integer zero, the HomeKit flow is created and the match
  rules are evaluated next: the flows are the HomeKit flow followed by those of the rules.
\<close>

theorem paired_homekit_is_forwarded:
  assumes "info_from_service L service = Inr (Some info)"
    and "service_type \<in> set HOMEKIT_TYPES"
    and "async_get_homekit_discovery_domain L (homekit_models self) (properties info)
           = Inr (Some domain)"
    and "domain \<noteq> []"
    and "map_of (properties info) HOMEKIT_PAIRED_STATUS_FLAG = Some (Str sf)"
    and "int_of_str L sf = Some 0"
  shows "process_service_update L self service_type service =
           ((domain, SOURCE_HOMEKIT, info) # fst (generic_discovery L self service_type info),
            snd (generic_discovery L self service_type info))"
proof -
  have "homekit_discovery L self info = ([(domain, SOURCE_HOMEKIT, info)], Continue)"
    using assms(3-6) by (simp add: homekit_discovery_def)
  with assms(1,2) show ?thesis
    by (simp add: process_service_update_def split: prod.splits)
qed

theorem paired_homekit_is_forwarded_witness:
  "process_service_update ascii_lib example_discovery ''_hap._tcp.local.'' (lock_service ''0'')
     = ([(''lockvendor'', SOURCE_HOMEKIT, lock_info ''0''),
         (''homekit_controller'', SOURCE_ZEROCONF, lock_info ''0'')], None)"
proof -
  have t: "''_hap._tcp.local.'' \<in> set HOMEKIT_TYPES"
    by (simp add: HOMEKIT_TYPES_def)
  have ne: "''lockvendor'' \<noteq> []"
    by simp
  have s: "map_of (properties (lock_info ''0'')) HOMEKIT_PAIRED_STATUS_FLAG = Some (Str ''0'')"
    by (simp add: lock_info_def HOMEKIT_PAIRED_STATUS_FLAG_def)
  have i: "int_of_str ascii_lib ''0'' = Some 0"
    by (simp add: ascii_lib_def ascii_int_examples)
  have n: "info_from_service ascii_lib (lock_service ''0'') = Inr (Some (lock_info ''0''))"
    by (rule lock_service_info) simp
  from paired_homekit_is_forwarded[OF n t lock_domain ne s i]
  show ?thesis
    by (simp add: lock_generic)
qed

text \<open>
  Claim C1, as the code has it. For a record of a HomeKit type whose model resolves to a
  domain and whose decoded properties hold \<^verbatim>\<open>sf\<close> with a value that reads as an integer
  other than zero, or not as an integer, the HomeKit flow is created and
  \<^verbatim>\<open>_process_service_update\<close> returns: the match rules are not evaluated and no flow is
  created for them. The test of the code is \<^verbatim>\<open>HOMEKIT_PAIRED_STATUS_FLAG in props\<close>, on the
  decoded properties of the info.
\<close>

theorem unpaired_homekit_stops_after_homekit_flow:
  assumes "info_from_service L service = Inr (Some info)"
    and "service_type \<in> set HOMEKIT_TYPES"
    and "async_get_homekit_discovery_domain L (homekit_models self) (properties info)
           = Inr (Some domain)"
    and "domain \<noteq> []"
    and "map_of (properties info) HOMEKIT_PAIRED_STATUS_FLAG = Some (Str sf)"
    and "int_of_str L sf \<noteq> Some 0"
  shows "process_service_update L self service_type service =
           ([(domain, SOURCE_HOMEKIT, info)], None)"
proof -
  have "homekit_discovery L self info = ([(domain, SOURCE_HOMEKIT, info)], Return)"
    using assms(3-6) by (cases "int_of_str L sf") (simp_all add: homekit_discovery_def)
  with assms(1,2) show ?thesis
    by (simp add: process_service_update_def)
qed

theorem unpaired_homekit_stops_after_homekit_flow_witness:
  "process_service_update ascii_lib example_discovery ''_hap._tcp.local.'' (lock_service ''x'')
     = ([(''lockvendor'', SOURCE_HOMEKIT, lock_info ''x'')], None)"
proof -
  have t: "''_hap._tcp.local.'' \<in> set HOMEKIT_TYPES"
    by (simp add: HOMEKIT_TYPES_def)
  have ne: "''lockvendor'' \<noteq> []"
    by simp
  have s: "map_of (properties (lock_info ''x'')) HOMEKIT_PAIRED_STATUS_FLAG = Some (Str ''x'')"
    by (simp add: lock_info_def HOMEKIT_PAIRED_STATUS_FLAG_def)
  have i: "int_of_str ascii_lib ''x'' \<noteq> Some 0"
    by (simp add: ascii_lib_def ascii_int_examples)
  have n: "info_from_service ascii_lib (lock_service ''x'') = Inr (Some (lock_info ''x''))"
    by (rule lock_service_info) simp
  from unpaired_homekit_stops_after_homekit_flow[OF n t lock_domain ne s i]
  show ?thesis .
qed

text \<open>
  The claim as the specification states it fails on the lock with \<^verbatim>\<open>sf=1\<close>: the
  unfiltered rule of \<^verbatim>\<open>homekit_controller\<close> matches the record, and the dispatcher creates
  the HomeKit flow only.
\<close>

theorem unpaired_homekit_generic_counterexample:
  "process_service_update ascii_lib example_discovery ''_hap._tcp.local.'' (lock_service ''1'')
     = ([(''lockvendor'', SOURCE_HOMEKIT, lock_info ''1'')], None)
   \<and> generic_discovery ascii_lib example_discovery ''_hap._tcp.local.'' (lock_info ''1'')
     = ([(''homekit_controller'', SOURCE_ZEROCONF, lock_info ''1'')], None)
   \<and> \<not> set (fst (generic_discovery ascii_lib example_discovery ''_hap._tcp.local.''
                   (lock_info ''1'')))
        \<subseteq> set (fst (process_service_update ascii_lib example_discovery ''_hap._tcp.local.''
                   (lock_service ''1'')))"
proof -
  have hk: "homekit_discovery ascii_lib example_discovery (lock_info ''1'')
              = ([(''lockvendor'', SOURCE_HOMEKIT, lock_info ''1'')], Return)"
  proof -
    have "int_of_str ascii_lib ''1'' = Some 1"
      by (simp add: ascii_lib_def ascii_int_examples)
    moreover have "map_of (properties (lock_info ''1'')) HOMEKIT_PAIRED_STATUS_FLAG
                     = Some (Str ''1'')"
      by (simp add: lock_info_def HOMEKIT_PAIRED_STATUS_FLAG_def)
    ultimately show ?thesis
      by (simp add: homekit_discovery_def lock_domain)
  qed
  have n: "info_from_service ascii_lib (lock_service ''1'') = Inr (Some (lock_info ''1''))"
    by (rule lock_service_info) simp
  have p: "process_service_update ascii_lib example_discovery ''_hap._tcp.local.''
             (lock_service ''1'') = ([(''lockvendor'', SOURCE_HOMEKIT, lock_info ''1'')], None)"
    by (simp add: process_service_update_def n hk HOMEKIT_TYPES_def)
  show ?thesis
    unfolding p lock_generic by simp
qed

text \<open>
  A pairing status that is advertised without a value, or with bytes that are not UTF-8,
  is not among the decoded properties: \<^verbatim>\<open>HOMEKIT_PAIRED_STATUS_FLAG in props\<close> is false,
  and the match rules are evaluated after the HomeKit flow, whatever the bytes are.
\<close>

lemma homekit_without_decoded_sf_goes_on:
  assumes "info_from_service L service = Inr (Some info)"
    and "service_type \<in> set HOMEKIT_TYPES"
    and "async_get_homekit_discovery_domain L (homekit_models self) (properties info)
           = Inr (Some domain)"
    and "domain \<noteq> []"
    and "map_of (properties info) HOMEKIT_PAIRED_STATUS_FLAG = None"
  shows "process_service_update L self service_type service =
           ((domain, SOURCE_HOMEKIT, info) # fst (generic_discovery L self service_type info),
            snd (generic_discovery L self service_type info))"
proof -
  have "homekit_discovery L self info = ([(domain, SOURCE_HOMEKIT, info)], Continue)"
    using assms(3-5) by (simp add: homekit_discovery_def)
  with assms(1,2) show ?thesis
    by (simp add: process_service_update_def split: prod.splits)
qed

lemma lock_with_undecodable_sf:
  "map (\<lambda>(domain, source, info). (domain, source, map_of (properties info) ''sf''))
     (fst (process_service_update ascii_lib example_discovery ''_hap._tcp.local.''
             (lock_service [CHR 0xFF])))
     = [(''lockvendor'', SOURCE_HOMEKIT, None), (''homekit_controller'', SOURCE_ZEROCONF, None)]"
proof -
  let ?info = "\<lparr>host = ''10.0.0.5'', port = Some 80, hostname = ''lock.local.'',
      type = ''_hap._tcp.local.'', name = ''Lock._hap._tcp.local.'',
      properties =
        [(''_raw'', Dict [(''md'', Bytes ''SmartLock''), (''sf'', Bytes [CHR 0xFF])]),
         (''md'', Str ''SmartLock'')]\<rparr>"
  have d: "decode_properties [(RAW, Dict [])] (svc_properties (lock_service [CHR 0xFF]))
             = Inr (properties ?info)"
    by (simp add: lock_service_def decode_defs)
  have f: "first_non_link_local_or_v6_address ascii_lib (svc_addresses (lock_service [CHR 0xFF]))
             = Inr (Some ''10.0.0.5'')"
    by (simp add: lock_service_def address_defs)
  have n: "info_from_service ascii_lib (lock_service [CHR 0xFF]) = Inr (Some ?info)"
    using d f by (simp add: info_from_service_def) (simp add: lock_service_def)
  have t: "''_hap._tcp.local.'' \<in> set HOMEKIT_TYPES"
    by (simp add: HOMEKIT_TYPES_def)
  have m: "async_get_homekit_discovery_domain ascii_lib (homekit_models example_discovery)
             (properties ?info) = Inr (Some ''lockvendor'')"
    by (simp add: async_get_homekit_discovery_domain_def example_discovery_def
        model_matches_def match_defs)
  have ne: "''lockvendor'' \<noteq> []"
    by simp
  have s: "map_of (properties ?info) HOMEKIT_PAIRED_STATUS_FLAG = None"
    by (simp add: HOMEKIT_PAIRED_STATUS_FLAG_def)
  have g: "generic_discovery ascii_lib example_discovery ''_hap._tcp.local.'' ?info
             = ([(''homekit_controller'', SOURCE_ZEROCONF, ?info)], None)"
    by (simp add: generic_discovery_def cased_property_def
        zeroconf_types_get_def example_discovery_def skipped_def)
  show ?thesis
    unfolding homekit_without_decoded_sf_goes_on[OF n t m ne s] g by simp
qed

end
